theory Spec2Isabelle
  imports Complex_Main
begin

section \<open>Temporal decay scoring (services/decay.service.js)\<close>

text \<open>
  JavaScript numbers are idealised as real numbers, and a Date as the integer number of
  milliseconds since the epoch that it wraps. Every function of the source that reads
  the clock (\<^verbatim>\<open>new Date()\<close>, \<^verbatim>\<open>Date.now()\<close>) takes that reading as its explicit first
  argument \<open>now\<close>; the readings taken during one call of an exported function are one
  instant. Invalid dates, NaN and the infinities of the number type are outside the
  model.
\<close>

type_synonym timestamp = int

text \<open>
  The \<^verbatim>\<open>propertyAttributes\<close> object: a missing badge is falsy, hence \<open>False\<close>. Any
  object is accepted where attributes are read, so the functions below take every
  extension of the record (a cached bucket's metadata, a document of the collection).
\<close>

record propertyAttributes =
  isPremium :: bool
  isFeatured :: bool
  isVerified :: bool

definition noAttributes :: propertyAttributes where
  "noAttributes = \<lparr>isPremium = False, isFeatured = False, isVerified = False\<rparr>"

subsection \<open>DECAY_CONFIG\<close>

definition BASE_SCORE :: real where "BASE_SCORE = 1.0"
definition DECAY_FACTOR :: real where "DECAY_FACTOR = 0.1"
definition MAX_AGE_DAYS :: real where "MAX_AGE_DAYS = 90"
definition BOOST_PREMIUM :: real where "BOOST_PREMIUM = 1.2"
definition BOOST_FEATURED :: real where "BOOST_FEATURED = 1.1"
definition BOOST_VERIFIED :: real where "BOOST_VERIFIED = 1.05"
definition RECENT_maxDays :: real where "RECENT_maxDays = 7"
definition RECENT_weight :: real where "RECENT_weight = 1.0"
definition MEDIUM_maxDays :: real where "MEDIUM_maxDays = 30"
definition MEDIUM_weight :: real where "MEDIUM_weight = 0.8"
definition OLD_weight :: real where "OLD_weight = 0.6"

subsection \<open>calculateTemporalScore, calculateDynamicTTL\<close>

text \<open>\<^verbatim>\<open>(currentDate - propertyDate) / (1000 * 60 * 60 * 24)\<close>\<close>

definition ageInDays :: "timestamp \<Rightarrow> timestamp \<Rightarrow> real" where
  "ageInDays currentDate propertyDate =
     real_of_int (currentDate - propertyDate) / (1000 * 60 * 60 * 24)"

text \<open>
  The body of \<^verbatim>\<open>calculateTemporalScore\<close>, one \<open>let\<close> per assignment to \<^verbatim>\<open>score\<close>. The
  age is capped by \<^verbatim>\<open>Math.min\<close> inside the exponent only; the weight bands test the
  uncapped age.
\<close>

definition calculateTemporalScore ::
    "timestamp \<Rightarrow> timestamp \<Rightarrow> 'a propertyAttributes_scheme \<Rightarrow> real" where
  "calculateTemporalScore currentDate dateAdded pa =
     (let age = ageInDays currentDate dateAdded;
          score0 = BASE_SCORE * exp (- DECAY_FACTOR * min age MAX_AGE_DAYS);
          score1 = (if age \<le> RECENT_maxDays then score0 * RECENT_weight
                    else if age \<le> MEDIUM_maxDays then score0 * MEDIUM_weight
                    else score0 * OLD_weight);
          score2 = (if isPremium pa then score1 * BOOST_PREMIUM else score1);
          score3 = (if isFeatured pa then score2 * BOOST_FEATURED else score2);
          score4 = (if isVerified pa then score3 * BOOST_VERIFIED else score3)
      in score4)"

text \<open>\<^verbatim>\<open>calculateDynamicTTL(score, baseTime = 3600)\<close>: no clamping of the score.\<close>

definition defaultBaseTime :: real where "defaultBaseTime = 3600"

definition calculateDynamicTTL :: "real \<Rightarrow> real \<Rightarrow> int" where
  "calculateDynamicTTL score baseTime =
     (let minTTL = baseTime * 0.5;
          maxTTL = baseTime * 2
      in \<lfloor>minTTL + (maxTTL - minTTL) * score\<rfloor>)"

subsection \<open>The scorer as the specification words it\<close>

text \<open>
  Second definitions, written from the specification's formulas (section 4.2), to be
  compared with the ones above.
\<close>

definition clamp :: "real \<Rightarrow> real \<Rightarrow> real \<Rightarrow> real" where
  "clamp x lo hi = max lo (min x hi)"

definition spec_timeWeight :: "real \<Rightarrow> real" where
  "spec_timeWeight ageDays =
     (if ageDays \<le> 7 then 1.0 else if ageDays \<le> 30 then 0.8 else 0.6)"

definition spec_boost :: "'a propertyAttributes_scheme \<Rightarrow> real" where
  "spec_boost pa =
     (if isPremium pa then 1.2 else 1) * (if isFeatured pa then 1.1 else 1)
       * (if isVerified pa then 1.05 else 1)"

definition spec_temporalScore ::
    "timestamp \<Rightarrow> timestamp \<Rightarrow> 'a propertyAttributes_scheme \<Rightarrow> real" where
  "spec_temporalScore now dateAdded pa =
     (let ageDays = clamp (real_of_int (now - dateAdded) / 86400000) 0 90;
          base = 1.0 * exp (- 0.1 * ageDays)
      in base * spec_timeWeight ageDays * spec_boost pa)"

definition spec_dynamicTTL :: "real \<Rightarrow> int" where
  "spec_dynamicTTL score =
     (let base = 3600; minTTL = 0.5 * base; maxTTL = 2 * base
      in \<lfloor>minTTL + (maxTTL - minTTL) * clamp score 0 1\<rfloor>)"

section \<open>The key-value store (the redis client)\<close>

text \<open>
  The value that \<^verbatim>\<open>setCacheWithTemporalDecay\<close> serialises under a cache key. The source's
  fields \<^verbatim>\<open>score\<close>, \<^verbatim>\<open>timestamp\<close> and \<^verbatim>\<open>metadata\<close> are named \<open>writtenScore\<close>, \<open>writtenAt\<close> and
  \<open>bucketMetadata\<close> here, since a ranked property and a query result reuse the names. The
  metadata object \<^verbatim>\<open>{dateAdded, ...propertyAttributes}\<close> is the attributes record extended by
  \<open>dateAdded\<close>. JSON serialisation is the identity on the model's values; the payload
  type \<open>'v\<close> stands for the non-null objects that the callers cache.
\<close>

record bucketMetadata = propertyAttributes +
  dateAdded :: timestamp

record 'v cachedBucket =
  data :: 'v
  writtenScore :: real
  writtenAt :: timestamp
  bucketMetadata :: bucketMetadata

text \<open>
  One keyspace for every type of value, as in Redis: a key holds a string (here always
  a serialised bucket) or a sorted set (member and score pairs, one pair per member),
  and may carry an expiry instant in milliseconds. An entry whose expiry instant has
  been reached is gone for every command.
\<close>

datatype 'v redisValue = RString "'v cachedBucket" | RZSet "(string \<times> real) list"

record 'v redisEntry =
  rvalue :: "'v redisValue"
  expiresAt :: "timestamp option"

type_synonym 'v redis = "string \<rightharpoonup> 'v redisEntry"

datatype redisError = WRONGTYPE | InvalidExpireTime | OutOfRange

definition liveEntry :: "timestamp \<Rightarrow> 'v redis \<Rightarrow> string \<Rightarrow> 'v redisEntry option" where
  "liveEntry now r k =
     (case r k of
        None \<Rightarrow> None
      | Some e \<Rightarrow>
          (case expiresAt e of
             None \<Rightarrow> Some e
           | Some t \<Rightarrow> if t \<le> now then None else Some e))"

text \<open>GET: nil for a missing key, an error for a key that holds a sorted set.\<close>

definition redis_get ::
    "timestamp \<Rightarrow> string \<Rightarrow> 'v redis \<Rightarrow> redisError + 'v cachedBucket option" where
  "redis_get now k r =
     (case liveEntry now r k of
        None \<Rightarrow> Inr None
      | Some e \<Rightarrow> (case rvalue e of RString b \<Rightarrow> Inr (Some b) | RZSet l \<Rightarrow> Inl WRONGTYPE))"

text \<open>
  SETEX overwrites a key of any type. The server reads the time to live as a signed
  64-bit integer and refuses what does not fit (\<open>OutOfRange\<close>). It refuses as an invalid
  expire time a time to live that is not positive or that is above \<open>LLONG_MAX / 1000\<close>
  seconds, and one whose expiry instant, the clock plus the time to live in
  milliseconds, is beyond \<open>LLONG_MAX\<close>. A clock reading is the time value of a Date, which
  is at most 8.64e15; the last test uses the reading capped at that value, so that it
  is the server's test at every instant that a Date can hold.
\<close>

definition LLONG_MAX :: int where
  "LLONG_MAX = 2 ^ 63 - 1"

definition maxTimeValue :: timestamp where
  "maxTimeValue = 8640000000000000"

definition expireTimeAccepted :: "timestamp \<Rightarrow> int \<Rightarrow> bool" where
  "expireTimeAccepted now seconds =
     (0 < seconds \<and> seconds \<le> LLONG_MAX div 1000
      \<and> min now maxTimeValue + seconds * 1000 \<le> LLONG_MAX)"

definition redis_setEx ::
    "timestamp \<Rightarrow> string \<Rightarrow> int \<Rightarrow> 'v cachedBucket \<Rightarrow> 'v redis \<Rightarrow> redisError + 'v redis" where
  "redis_setEx now k seconds b r =
     (if LLONG_MAX < seconds then Inl OutOfRange
      else if \<not> expireTimeAccepted now seconds then Inl InvalidExpireTime
      else Inr (r(k \<mapsto> \<lparr>rvalue = RString b, expiresAt = Some (now + seconds * 1000)\<rparr>)))"

definition zset_add :: "string \<Rightarrow> real \<Rightarrow> (string \<times> real) list \<Rightarrow> (string \<times> real) list" where
  "zset_add member sc l = (member, sc) # filter (\<lambda>p. fst p \<noteq> member) l"

definition zset_rem :: "string \<Rightarrow> (string \<times> real) list \<Rightarrow> (string \<times> real) list" where
  "zset_rem member l = filter (\<lambda>p. fst p \<noteq> member) l"

text \<open>ZADD: creates the sorted set when the key is missing, upserts the member.\<close>

definition redis_zAdd ::
    "timestamp \<Rightarrow> string \<Rightarrow> real \<Rightarrow> string \<Rightarrow> 'v redis \<Rightarrow> redisError + 'v redis" where
  "redis_zAdd now zkey sc member r =
     (case liveEntry now r zkey of
        None \<Rightarrow> Inr (r(zkey \<mapsto> \<lparr>rvalue = RZSet (zset_add member sc []), expiresAt = None\<rparr>))
      | Some e \<Rightarrow>
          (case rvalue e of
             RZSet l \<Rightarrow> Inr (r(zkey \<mapsto> e\<lparr>rvalue := RZSet (zset_add member sc l)\<rparr>))
           | RString b \<Rightarrow> Inl WRONGTYPE))"

text \<open>ZREM: a sorted set that loses its last member is removed with its key.\<close>

definition redis_zRem ::
    "timestamp \<Rightarrow> string \<Rightarrow> string \<Rightarrow> 'v redis \<Rightarrow> redisError + 'v redis" where
  "redis_zRem now zkey member r =
     (case liveEntry now r zkey of
        None \<Rightarrow> Inr r
      | Some e \<Rightarrow>
          (case rvalue e of
             RZSet l \<Rightarrow>
               (let l' = zset_rem member l
                in if l' = [] then Inr (r(zkey := None))
                   else Inr (r(zkey \<mapsto> e\<lparr>rvalue := RZSet l'\<rparr>)))
           | RString b \<Rightarrow> Inl WRONGTYPE))"

definition redis_del :: "string set \<Rightarrow> 'v redis \<Rightarrow> 'v redis" where
  "redis_del ks r = (\<lambda>k. if k \<in> ks then None else r k)"

text \<open>
  Glob matching of KEYS: \<open>*\<close> matches any run of characters, \<open>?\<close> one character, every
  other character itself. Bracket classes and escapes are not modelled: the patterns
  that the code builds consist of \<open>geo:\<close>, a cell name, \<open>:\<close> and \<open>*\<close>.
\<close>

fun globMatch :: "string \<Rightarrow> string \<Rightarrow> bool" where
  "globMatch [] [] = True"
| "globMatch [] (c # cs) = False"
| "globMatch (p # ps) [] = (p = CHR ''*'' \<and> globMatch ps [])"
| "globMatch (p # ps) (c # cs) =
     (if p = CHR ''*'' then globMatch ps (c # cs) \<or> globMatch (p # ps) cs
      else (p = CHR ''?'' \<or> p = c) \<and> globMatch ps cs)"

definition redis_keys :: "timestamp \<Rightarrow> string \<Rightarrow> 'v redis \<Rightarrow> string set" where
  "redis_keys now pattern r = {k. liveEntry now r k \<noteq> None \<and> globMatch pattern k}"

text \<open>
  EXPIRE takes the name of one key, not a pattern: it sets the expiry of that key when
  the key exists and does nothing otherwise.
\<close>

definition redis_expire :: "timestamp \<Rightarrow> string \<Rightarrow> int \<Rightarrow> 'v redis \<Rightarrow> 'v redis" where
  "redis_expire now k seconds r =
     (case liveEntry now r k of
        None \<Rightarrow> r
      | Some e \<Rightarrow>
          if seconds \<le> 0 then r(k := None)
          else r(k \<mapsto> e\<lparr>expiresAt := Some (now + seconds * 1000)\<rparr>))"

text \<open>The sorted set \<^verbatim>\<open>temporal_scores\<close>, read as a map from cache key to score.\<close>

definition scoreIndex :: "timestamp \<Rightarrow> 'v redis \<Rightarrow> string \<rightharpoonup> real" where
  "scoreIndex now r =
     (case liveEntry now r ''temporal_scores'' of
        None \<Rightarrow> Map.empty
      | Some e \<Rightarrow> (case rvalue e of RZSet l \<Rightarrow> map_of l | RString b \<Rightarrow> Map.empty))"

section \<open>The state of the service\<close>

text \<open>
  The documents of the collection as \<^verbatim>\<open>$geoNear\<close> returns them: the badge fields, the
  listing date and the \<^verbatim>\<open>distance\<close> field in metres that the stage adds.
\<close>

record propertyDoc = propertyAttributes +
  property_id :: nat
  date_added :: timestamp
  distance :: real

text \<open>
  An aggregation pipeline: the \<^verbatim>\<open>$geoNear\<close> stage (\<open>near\<close> is the coordinate pair
  \<^verbatim>\<open>[longitude, latitude]\<close>) followed by \<^verbatim>\<open>$count\<close> or by \<^verbatim>\<open>$skip\<close> and \<^verbatim>\<open>$limit\<close> stages.
\<close>

datatype stage = Skip int | Limit int

datatype pipelineTail = CountDocuments | Stages "stage list"

record aggregateQuery =
  near :: "real \<times> real"
  maxDistance :: real
  pipelineTail :: pipelineTail

text \<open>
  The mutable state: the Redis keyspace, the module variable \<^verbatim>\<open>cacheHits\<close> of
  decay.service.js, the module variable \<^verbatim>\<open>cacheHits\<close> of redis.services.js, the two maps
  of \<^verbatim>\<open>cacheOptimizer\<close>, and the log of the pipelines sent to the document store.
\<close>

record 'v appState =
  redis :: "'v redis"
  cacheHits :: nat
  redisServices_cacheHits :: nat
  hitCounter :: "string \<rightharpoonup> nat"
  missCounter :: "string \<rightharpoonup> nat"
  docQueries :: "aggregateQuery list"

definition initialState :: "'v appState" where
  "initialState =
     \<lparr>redis = Map.empty, cacheHits = 0, redisServices_cacheHits = 0,
      hitCounter = Map.empty, missCounter = Map.empty, docQueries = []\<rparr>"

section \<open>Cache reads and writes (services/decay.service.js)\<close>

text \<open>
  \<^verbatim>\<open>setCacheWithTemporalDecay\<close>: the \<^verbatim>\<open>try\<close> block stops at the first command that throws
  and the function returns \<^verbatim>\<open>false\<close>; what was written before stays written.
\<close>

definition setCacheWithTemporalDecay ::
    "timestamp \<Rightarrow> string \<Rightarrow> 'v \<Rightarrow> timestamp \<Rightarrow> propertyAttributes \<Rightarrow> 'v appState
      \<Rightarrow> bool \<times> 'v appState" where
  "setCacheWithTemporalDecay now key val dateAdded' pa s =
     (let sc = calculateTemporalScore now dateAdded' pa;
          ttl = calculateDynamicTTL sc defaultBaseTime;
          bucket = \<lparr>data = val, writtenScore = sc, writtenAt = now,
                    bucketMetadata =
                      \<lparr>isPremium = isPremium pa, isFeatured = isFeatured pa,
                       isVerified = isVerified pa, dateAdded = dateAdded'\<rparr>\<rparr>
      in case redis_setEx now key ttl bucket (redis s) of
           Inl e \<Rightarrow> (False, s)
         | Inr r1 \<Rightarrow>
             (case redis_zAdd now ''temporal_scores'' sc key r1 of
                Inl e \<Rightarrow> (False, s\<lparr>redis := r1\<rparr>)
              | Inr r2 \<Rightarrow> (True, s\<lparr>redis := r2\<rparr>)))"

text \<open>
  \<^verbatim>\<open>getCacheWithTemporalCheck\<close>: \<open>None\<close> is the source's \<^verbatim>\<open>null\<close>. The counter is
  incremented as soon as a value is found, before the degradation test.
\<close>

definition getCacheWithTemporalCheck ::
    "timestamp \<Rightarrow> string \<Rightarrow> 'v appState \<Rightarrow> 'v option \<times> 'v appState" where
  "getCacheWithTemporalCheck now key s =
     (case redis_get now key (redis s) of
        Inl e \<Rightarrow> (None, s)
      | Inr None \<Rightarrow> (None, s)
      | Inr (Some parsed) \<Rightarrow>
          (let s1 = s\<lparr>cacheHits := cacheHits s + 1\<rparr>;
               currentScore =
                 calculateTemporalScore now (dateAdded (bucketMetadata parsed))
                   (bucketMetadata parsed)
           in if currentScore < writtenScore parsed * 0.7 then
                (let r1 = redis_del {key} (redis s1)
                 in case redis_zRem now ''temporal_scores'' key r1 of
                      Inl e \<Rightarrow> (None, s1\<lparr>redis := r1\<rparr>)
                    | Inr r2 \<Rightarrow> (None, s1\<lparr>redis := r2\<rparr>))
              else (Some (data parsed), s1)))"

text \<open>The entry that a successful SETEX of \<^verbatim>\<open>setCacheWithTemporalDecay\<close> leaves under the key.\<close>

definition writtenBucket ::
    "timestamp \<Rightarrow> 'v \<Rightarrow> timestamp \<Rightarrow> propertyAttributes \<Rightarrow> 'v redisEntry" where
  "writtenBucket t0 v d pa =
     \<lparr>rvalue = RString
        \<lparr>data = v, writtenScore = calculateTemporalScore t0 d pa, writtenAt = t0,
         bucketMetadata =
           \<lparr>isPremium = isPremium pa, isFeatured = isFeatured pa,
            isVerified = isVerified pa, dateAdded = d\<rparr>\<rparr>,
      expiresAt =
        Some (t0 + calculateDynamicTTL (calculateTemporalScore t0 d pa) defaultBaseTime * 1000)\<rparr>"

definition getCacheHits :: "'v appState \<Rightarrow> nat" where
  "getCacheHits s = cacheHits s"

section \<open>Geohash cells, invalidation and the optimizer (services/proximity-cache.service.js)\<close>

text \<open>
  What the service takes from outside the repository: the two functions of the ngeohash
  package, the conversion of a number to a string inside a template literal, and the
  answer of the document store to a \<^verbatim>\<open>$geoNear\<close> stage (the documents within
  \<open>maxDistance\<close> metres of \<open>near\<close>, nearest first; \<open>None\<close> when the store throws).
\<close>

record env =
  geohashEncode :: "real \<Rightarrow> real \<Rightarrow> nat \<Rightarrow> string"
  geohashNeighbors :: "string \<Rightarrow> string list"
  numberToString :: "real \<Rightarrow> string"
  geoNear :: "real \<times> real \<Rightarrow> real \<Rightarrow> propertyDoc list option"

definition getPrecision :: "real \<Rightarrow> nat" where
  "getPrecision radius' = (if radius' \<le> 1 then 7 else if radius' \<le> 5 then 6 else 5)"

definition generateKey :: "env \<Rightarrow> real \<Rightarrow> real \<Rightarrow> real \<Rightarrow> string" where
  "generateKey env lat lng radius' =
     (let precision = getPrecision radius';
          geohash = geohashEncode env lat lng precision
      in ''geo:'' @ geohash @ '':'' @ numberToString env radius')"

definition getNeighbors :: "env \<Rightarrow> real \<Rightarrow> real \<Rightarrow> real \<Rightarrow> string list" where
  "getNeighbors env lat lng radius' =
     (let precision = getPrecision radius'
      in geohashNeighbors env (geohashEncode env lat lng precision))"

text \<open>One round of the loop of \<^verbatim>\<open>invalidateRadius\<close>: KEYS, then DEL of what it returned.\<close>

definition invalidateCell :: "timestamp \<Rightarrow> string \<Rightarrow> 'v redis \<Rightarrow> 'v redis" where
  "invalidateCell now cell r =
     (let pattern = ''geo:'' @ cell @ '':*'';
          keys = redis_keys now pattern r
      in if keys \<noteq> {} then redis_del keys r else r)"

definition invalidateRadius ::
    "env \<Rightarrow> timestamp \<Rightarrow> real \<Rightarrow> real \<Rightarrow> real \<Rightarrow> 'v appState \<Rightarrow> 'v appState" where
  "invalidateRadius env now lat lng radius' s =
     (let precision = getPrecision radius';
          geohash = geohashEncode env lat lng precision;
          neighbors = geohashNeighbors env geohash;
          cellsToInvalidate = geohash # neighbors
      in s\<lparr>redis := fold (invalidateCell now) cellsToInvalidate (redis s)\<rparr>)"

text \<open>\<^verbatim>\<open>cacheOptimizer\<close>: \<^verbatim>\<open>map.get(geohash) || 0\<close> reads a missing counter as 0.\<close>

definition counterOf :: "(string \<rightharpoonup> nat) \<Rightarrow> string \<Rightarrow> nat" where
  "counterOf m geohash = (case m geohash of None \<Rightarrow> 0 | Some n \<Rightarrow> n)"

definition adjustCacheStrategy :: "timestamp \<Rightarrow> string \<Rightarrow> real \<Rightarrow> 'v appState \<Rightarrow> 'v appState" where
  "adjustCacheStrategy now geohash hitRatio s =
     (if hitRatio < 0.3
      then s\<lparr>redis := redis_expire now (''geo:'' @ geohash @ '':*'') 1800 (redis s)\<rparr>
      else s)"

definition optimizeIfNeeded :: "timestamp \<Rightarrow> string \<Rightarrow> 'v appState \<Rightarrow> 'v appState" where
  "optimizeIfNeeded now geohash s =
     (let hits = counterOf (hitCounter s) geohash;
          misses = counterOf (missCounter s) geohash;
          total = hits + misses
      in if total \<ge> 100 then
           (let hitRatio = real hits / real total;
                s1 = (if hitRatio < 0.5 then adjustCacheStrategy now geohash hitRatio s else s)
            in s1\<lparr>hitCounter := (hitCounter s1)(geohash \<mapsto> 0),
                  missCounter := (missCounter s1)(geohash \<mapsto> 0)\<rparr>)
         else s)"

definition trackHit :: "timestamp \<Rightarrow> string \<Rightarrow> 'v appState \<Rightarrow> 'v appState" where
  "trackHit now geohash s =
     optimizeIfNeeded now geohash
       (s\<lparr>hitCounter := (hitCounter s)(geohash \<mapsto> counterOf (hitCounter s) geohash + 1)\<rparr>)"

definition trackMiss :: "timestamp \<Rightarrow> string \<Rightarrow> 'v appState \<Rightarrow> 'v appState" where
  "trackMiss now geohash s =
     optimizeIfNeeded now geohash
       (s\<lparr>missCounter := (missCounter s)(geohash \<mapsto> counterOf (missCounter s) geohash + 1)\<rparr>)"

section \<open>The nearby query (services/property.services.js)\<close>

text \<open>
  A returned property: the document with the attached \<^verbatim>\<open>score\<close>. The cached payloads
  have two shapes: the full result of a query, and the object
  \<^verbatim>\<open>{properties, metadata: {queryTimestamp}}\<close> that neighbour warming writes.
\<close>

record rankedProperty = propertyDoc +
  score :: real

record queryMetadata =
  queryTimestamp :: timestamp
  coordinates :: "real \<times> real"
  radius :: real

record nearbyResult =
  properties :: "rankedProperty list"
  totalCount :: nat
  totalPages :: int
  currentPage :: int
  metadata :: queryMetadata

datatype payload = NearbyResult nearbyResult | WarmingResult "propertyDoc list" timestamp

datatype serviceError = DocStoreError

text \<open>
  \<^verbatim>\<open>Property.aggregate\<close>: the pipeline is logged, then answered. The store rejects a
  negative \<^verbatim>\<open>$skip\<close> and a \<^verbatim>\<open>$limit\<close> that is not positive. \<^verbatim>\<open>$count\<close> yields no
  document at all when nothing matched, which is why the caller tests the length.
\<close>

fun applyStages :: "stage list \<Rightarrow> propertyDoc list \<Rightarrow> propertyDoc list option" where
  "applyStages [] docs = Some docs"
| "applyStages (Skip n # st) docs =
     (if n < 0 then None else applyStages st (drop (nat n) docs))"
| "applyStages (Limit n # st) docs =
     (if n \<le> 0 then None else applyStages st (take (nat n) docs))"

definition logQuery :: "aggregateQuery \<Rightarrow> 'v appState \<Rightarrow> 'v appState" where
  "logQuery q s = s\<lparr>docQueries := docQueries s @ [q]\<rparr>"

definition aggregateCount ::
    "env \<Rightarrow> real \<times> real \<Rightarrow> real \<Rightarrow> 'v appState \<Rightarrow> nat list option \<times> 'v appState" where
  "aggregateCount env nr md s =
     (case geoNear env nr md of
        None \<Rightarrow> None
      | Some docs \<Rightarrow> Some (if docs = [] then [] else [length docs]),
      logQuery \<lparr>near = nr, maxDistance = md, pipelineTail = CountDocuments\<rparr> s)"

definition aggregateDocs ::
    "env \<Rightarrow> real \<times> real \<Rightarrow> real \<Rightarrow> stage list \<Rightarrow> 'v appState
      \<Rightarrow> propertyDoc list option \<times> 'v appState" where
  "aggregateDocs env nr md st s =
     (case geoNear env nr md of
        None \<Rightarrow> None
      | Some docs \<Rightarrow> applyStages st docs,
      logQuery \<lparr>near = nr, maxDistance = md, pipelineTail = Stages st\<rparr> s)"

text \<open>
  The \<^verbatim>\<open>map\<close> over the page: \<^verbatim>\<open>calculateTemporalScore(property.date_added)\<close> is called with one
  argument, so the attributes are the default \<^verbatim>\<open>{}\<close>.
\<close>

definition applyScoring :: "timestamp \<Rightarrow> propertyDoc \<Rightarrow> rankedProperty" where
  "applyScoring now property =
     \<lparr>isPremium = isPremium property, isFeatured = isFeatured property,
      isVerified = isVerified property, property_id = property_id property,
      date_added = date_added property, distance = distance property,
      score = calculateTemporalScore now (date_added property) noAttributes
                * (1 / (1 + distance property / 1000))\<rparr>"

text \<open>
  \<^verbatim>\<open>properties.sort((a, b) => b.score - a.score)\<close>: the sort of the language is stable, so
  it is the stable sort by descending score, here by ascending negated score.
\<close>

definition sortByScore :: "rankedProperty list \<Rightarrow> rankedProperty list" where
  "sortByScore ps = sort_key (\<lambda>p. - score p) ps"

text \<open>
  The warming loop. Every round sends the \<^verbatim>\<open>$geoNear\<close> pipeline with the coordinates and
  the radius of the query itself, limited to 10 documents, and writes the neighbour's key
  when the answer is not empty. The result is \<open>False\<close> when a round throws.
\<close>

fun warmNeighbors ::
    "env \<Rightarrow> timestamp \<Rightarrow> real \<Rightarrow> real \<Rightarrow> real \<Rightarrow> string list \<Rightarrow> payload appState
      \<Rightarrow> bool \<times> payload appState" where
  "warmNeighbors env now latitude longitude radius' [] s = (True, s)"
| "warmNeighbors env now latitude longitude radius' (neighbor # rest) s =
     (let neighborKey = ''geo:'' @ neighbor @ '':'' @ numberToString env radius';
          (answer, s1) =
             aggregateDocs env (longitude, latitude) (radius' * 1000) [Limit 10] s
      in case answer of
           None \<Rightarrow> (False, s1)
         | Some neighborProperties \<Rightarrow>
             (let s2 = (if length neighborProperties > 0
                        then snd (setCacheWithTemporalDecay now neighborKey
                                    (WarmingResult neighborProperties now) now noAttributes s1)
                        else s1)
              in warmNeighbors env now latitude longitude radius' rest s2))"

text \<open>
  \<^verbatim>\<open>findNearbyProperties\<close>. A cached payload is an object, hence truthy. An exception of
  the document store is rethrown by the \<^verbatim>\<open>catch\<close> block: the result is \<open>Inl\<close> and the state
  keeps what was done before.
\<close>

definition findNearbyProperties ::
    "env \<Rightarrow> timestamp \<Rightarrow> real \<Rightarrow> real \<Rightarrow> real \<Rightarrow> int \<Rightarrow> int \<Rightarrow> payload appState
      \<Rightarrow> (serviceError + payload) \<times> payload appState" where
  "findNearbyProperties env now latitude longitude radius' page limit s =
     (let cacheKey = generateKey env latitude longitude radius';
          (cachedResult, s1) = getCacheWithTemporalCheck now cacheKey s
      in case cachedResult of
           Some cached \<Rightarrow> (Inr cached, trackHit now cacheKey s1)
         | None \<Rightarrow>
             (let s2 = trackMiss now cacheKey s1;
                  skip = (page - 1) * limit;
                  (totalCountResults, s3) =
                     aggregateCount env (longitude, latitude) (radius' * 1000) s2
              in case totalCountResults of
                   None \<Rightarrow> (Inl DocStoreError, s3)
                 | Some counted \<Rightarrow>
                     (let totalCount' = (case counted of [] \<Rightarrow> 0 | n # ns \<Rightarrow> n);
                          totalPages' = \<lceil>real totalCount' / real_of_int limit\<rceil>;
                          (page_docs, s4) =
                             aggregateDocs env (longitude, latitude) (radius' * 1000)
                               [Skip skip, Limit limit] s3
                      in case page_docs of
                           None \<Rightarrow> (Inl DocStoreError, s4)
                         | Some docs \<Rightarrow>
                             (let properties' = sortByScore (map (applyScoring now) docs);
                                  result = NearbyResult
                                    \<lparr>properties = properties', totalCount = totalCount',
                                     totalPages = totalPages', currentPage = page,
                                     metadata = \<lparr>queryTimestamp = now,
                                                 coordinates = (latitude, longitude),
                                                 radius = radius'\<rparr>\<rparr>;
                                  s5 = snd (setCacheWithTemporalDecay now cacheKey result now
                                              noAttributes s4);
                                  neighbors = getNeighbors env latitude longitude radius';
                                  (warmed, s6) =
                                     warmNeighbors env now latitude longitude radius' neighbors s5
                              in if warmed then (Inr result, s6)
                                 else (Inl DocStoreError, s6)))))"

section \<open>The route handlers (route/property.route.js) and their helpers\<close>

text \<open>
  \<^verbatim>\<open>getCacheHitCount\<close> of services/redis.services.js (read from the copy of the module in
  realestate-proximity-cache) returns that module's own variable \<^verbatim>\<open>cacheHits\<close>, which only
  \<^verbatim>\<open>getCache\<close> of the same module increments. The handler of \<^verbatim>\<open>GET /cacheStats\<close> reports it
  as \<^verbatim>\<open>cacheHits\<close>; the other fields of its response are not modelled.
\<close>

definition getCacheHitCount :: "'v appState \<Rightarrow> nat" where
  "getCacheHitCount s = redisServices_cacheHits s"

definition cacheStats_cacheHits :: "'v appState \<Rightarrow> nat" where
  "cacheStats_cacheHits s = getCacheHitCount s"

text \<open>
  The handler of \<^verbatim>\<open>GET /nearby\<close>. A query parameter that is missing or empty is \<open>None\<close>;
  the only test before the service is called is \<^verbatim>\<open>!lat || !lng\<close>. A 200 response carries
  the payload from which the body takes \<^verbatim>\<open>properties\<close>, \<^verbatim>\<open>totalCount\<close> and \<^verbatim>\<open>totalPages\<close>,
  the page and the \<^verbatim>\<open>hasMore\<close> flag.
\<close>

datatype response =
    Json200 payload int bool
  | Json400 string
  | Json500 string

definition hasMore :: "int \<Rightarrow> payload \<Rightarrow> bool" where
  "hasMore page p = (case p of NearbyResult r \<Rightarrow> page < totalPages r | WarmingResult ds t \<Rightarrow> False)"

definition nearbyRoute ::
    "env \<Rightarrow> timestamp \<Rightarrow> real option \<Rightarrow> real option \<Rightarrow> real \<Rightarrow> int \<Rightarrow> int \<Rightarrow> payload appState
      \<Rightarrow> response \<times> payload appState" where
  "nearbyRoute env now lat lng radius' page limit s =
     (case lat of
        None \<Rightarrow> (Json400 ''Latitude and longitude are required'', s)
      | Some lat' \<Rightarrow>
          (case lng of
             None \<Rightarrow> (Json400 ''Latitude and longitude are required'', s)
           | Some lng' \<Rightarrow>
               (case findNearbyProperties env now lat' lng' radius' page limit s of
                  (Inl e, s') \<Rightarrow> (Json500 ''Internal server error'', s')
                | (Inr p, s') \<Rightarrow> (Json200 p page (hasMore page p), s'))))"

section \<open>Coordinate validation (proxmity-cache/nodejs/src/utils/validation.js)\<close>

text \<open>
  \<^verbatim>\<open>validateCoordinates\<close> on parsed numbers; \<open>Inl\<close> carries the \<^verbatim>\<open>error\<close> text of an invalid
  result. The test for NaN has no counterpart over the reals.
\<close>

definition validateCoordinates :: "real \<Rightarrow> real \<Rightarrow> string + real \<times> real" where
  "validateCoordinates lat lon =
     (if lat < -5000 \<or> lat > 5000 then Inl ''Latitude must be between -90 and 90''
      else if lon < -100000 \<or> lon > 100000 then Inl ''Longitude must be between -180 and 180''
      else Inr (lat, lon))"

section \<open>Names for the terms of the proofs\<close>

text \<open>The three pipelines that a miss sends to the document store.\<close>

definition countQuery :: "real \<Rightarrow> real \<Rightarrow> real \<Rightarrow> aggregateQuery" where
  "countQuery latitude longitude radius' =
     \<lparr>near = (longitude, latitude), maxDistance = radius' * 1000, pipelineTail = CountDocuments\<rparr>"

definition pageQuery :: "real \<Rightarrow> real \<Rightarrow> real \<Rightarrow> int \<Rightarrow> int \<Rightarrow> aggregateQuery" where
  "pageQuery latitude longitude radius' page limit =
     \<lparr>near = (longitude, latitude), maxDistance = radius' * 1000,
      pipelineTail = Stages [Skip ((page - 1) * limit), Limit limit]\<rparr>"

definition warmQuery :: "real \<Rightarrow> real \<Rightarrow> real \<Rightarrow> aggregateQuery" where
  "warmQuery latitude longitude radius' =
     \<lparr>near = (longitude, latitude), maxDistance = radius' * 1000, pipelineTail = Stages [Limit 10]\<rparr>"

text \<open>
  The result object that \<^verbatim>\<open>findNearbyProperties\<close> builds on a miss when the store holds
  \<open>docs\<close> within the radius.
\<close>

definition missResult :: "timestamp \<Rightarrow> real \<Rightarrow> real \<Rightarrow> real \<Rightarrow> int \<Rightarrow> int \<Rightarrow> propertyDoc list \<Rightarrow> payload" where
  "missResult now latitude longitude radius' page limit docs =
     NearbyResult
       \<lparr>properties = sortByScore (map (applyScoring now)
                        (take (nat limit) (drop (nat ((page - 1) * limit)) docs))),
        totalCount = length docs,
        totalPages = \<lceil>real (length docs) / real_of_int limit\<rceil>,
        currentPage = page,
        metadata = \<lparr>queryTimestamp = now, coordinates = (latitude, longitude), radius = radius'\<rparr>\<rparr>"

text \<open>
  One round of the warming loop when the store answers the \<^verbatim>\<open>$geoNear\<close> stage of the
  query with \<open>docs\<close>.
\<close>

definition warmStep :: "env \<Rightarrow> timestamp \<Rightarrow> real \<Rightarrow> real \<Rightarrow> real \<Rightarrow> propertyDoc list \<Rightarrow> string \<Rightarrow> payload appState \<Rightarrow> payload appState" where
  "warmStep env now latitude longitude radius' docs neighbor s =
     (if take 10 docs \<noteq> []
      then snd (setCacheWithTemporalDecay now (''geo:'' @ neighbor @ '':'' @ numberToString env radius')
                  (WarmingResult (take 10 docs) now) now noAttributes
                  (logQuery (warmQuery latitude longitude radius') s))
      else logQuery (warmQuery latitude longitude radius') s)"

subsection \<open>The relevance of an item as the specification words it\<close>

text \<open>
  Section 4.5, step 4: the temporal score of the item's date and of the item's own
  badges, times \<open>1 / (1 + distanceKm)\<close>.
\<close>

definition spec_relevance :: "timestamp \<Rightarrow> propertyDoc \<Rightarrow> real" where
  "spec_relevance now item =
     calculateTemporalScore now (date_added item) item * (1 / (1 + distance item / 1000))"

section \<open>A worked environment\<close>

text \<open>
  The point (40.71, -74.01): its geohash is \<open>dr5reg5\<close>, and the cell \<open>dr5re\<close> of precision 5
  has the eight neighbours listed (north first, clockwise). The environment encodes that
  point only and knows the neighbours of that cell only. The queries of the examples
  have radius 10, hence precision 5, and the document store answers each with \<open>docs\<close>.
\<close>

definition exampleEnv :: "propertyDoc list \<Rightarrow> env" where
  "exampleEnv docs =
     \<lparr>geohashEncode = (\<lambda>lat lng precision. take precision ''dr5reg5''),
      geohashNeighbors =
        (\<lambda>h. if h = ''dr5re''
             then [''dr5rg'', ''dr5ru'', ''dr5rs'', ''dr5rk'', ''dr5r7'', ''dr5r6'', ''dr5rd'',
                   ''dr5rf'']
             else []),
      numberToString = (\<lambda>x. if x = 10 then ''10'' else ''5''),
      geoNear = (\<lambda>nr md. Some docs)\<rparr>"

text \<open>
  Two listings added at instant 0: one without a badge at the query point, a premium one
  100 metres away.
\<close>

definition listingA :: propertyDoc where
  "listingA = \<lparr>isPremium = False, isFeatured = False, isVerified = False,
                property_id = 1, date_added = 0, distance = 0\<rparr>"

definition listingB :: propertyDoc where
  "listingB = \<lparr>isPremium = True, isFeatured = False, isVerified = False,
                property_id = 2, date_added = 0, distance = 100\<rparr>"


section \<open>Properties of the scorer\<close>

lemmas DECAY_CONFIG_defs =
  BASE_SCORE_def DECAY_FACTOR_def MAX_AGE_DAYS_def BOOST_PREMIUM_def BOOST_FEATURED_def
  BOOST_VERIFIED_def RECENT_maxDays_def RECENT_weight_def MEDIUM_maxDays_def
  MEDIUM_weight_def OLD_weight_def

lemma ageInDays_eq: "ageInDays now d = real_of_int (now - d) / 86400000"
  by (simp add: ageInDays_def)

lemma spec_boost_pos: "0 < spec_boost pa"
  by (simp add: spec_boost_def)

lemma spec_timeWeight_pos: "0 < spec_timeWeight a"
  by (simp add: spec_timeWeight_def)

lemma spec_timeWeight_antimono: "a \<le> b \<Longrightarrow> spec_timeWeight b \<le> spec_timeWeight a"
  by (simp add: spec_timeWeight_def)

text \<open>The sequence of updates of \<^verbatim>\<open>score\<close> as one product.\<close>

lemma calculateTemporalScore_product:
  "calculateTemporalScore now d pa =
     exp (- (min (ageInDays now d) 90 / 10)) * spec_timeWeight (ageInDays now d) * spec_boost pa"
  by (simp add: calculateTemporalScore_def Let_def DECAY_CONFIG_defs spec_timeWeight_def
      spec_boost_def)


text \<open>
  C7. The claim equates \<^verbatim>\<open>calculateTemporalScore\<close> with the specification's formula for
  every \<^verbatim>\<open>dateAdded\<close>, future timestamps included, the age being clamped below at 0.
  The code applies \<^verbatim>\<open>Math.min(ageInDays, 90)\<close> only: one day ahead of the clock the
  code's base is \<open>exp 0.1\<close> and the formula's is \<open>exp 0\<close>.
\<close>

theorem calculateTemporalScore_future_counterexample:
  "calculateTemporalScore 0 86400000 noAttributes
     \<noteq> spec_temporalScore 0 86400000 noAttributes"
  by (simp add: calculateTemporalScore_product spec_temporalScore_def ageInDays_eq clamp_def
      spec_timeWeight_def spec_boost_def noAttributes_def)

text \<open>
  C7, amended. For every \<^verbatim>\<open>dateAdded\<close> that is not after the current time and every
  attribute combination, \<^verbatim>\<open>calculateTemporalScore\<close> equals the specification's formula
  (age clamped to [0, 90], time weight 1.0 / 0.8 / 0.6, the three boosts). For a
  \<^verbatim>\<open>dateAdded\<close> in the future the age is negative and is not clamped: the score is
  \<open>exp (-0.1 * ageDays) * 1.0 * boost\<close>.
\<close>

theorem calculateTemporalScore_amended:
  "calculateTemporalScore now d pa =
     (if d \<le> now then spec_temporalScore now d pa
      else exp (- 0.1 * ageInDays now d) * 1.0 * spec_boost pa)"
proof (cases "d \<le> now")
  case True
  then have "0 \<le> ageInDays now d"
    by (simp add: ageInDays_eq)
  then show ?thesis
    using True
    apply (simp add: calculateTemporalScore_product spec_temporalScore_def ageInDays_eq
        clamp_def Let_def)
    apply (auto simp: spec_timeWeight_def min_def max_def)
    done
next
  case False
  then have "ageInDays now d < 0"
    by (simp add: ageInDays_eq)
  then show ?thesis
    using False by (simp add: calculateTemporalScore_product spec_timeWeight_def min_def)
qed

text \<open>
  C9. Temporal score is monotone in freshness: for timestamps \<open>t0 < t1\<close> and the same
  attributes, the score of \<open>dateAdded = t1\<close> is at least the score of \<open>dateAdded = t0\<close>
  at the same current time. The statement covers the band boundaries at 7 and 30 days
  and timestamps in the future.
\<close>

theorem temporalScore_monotone:
  assumes "t0 < t1"
  shows "calculateTemporalScore now t0 pa \<le> calculateTemporalScore now t1 pa"
proof -
  have age: "ageInDays now t1 \<le> ageInDays now t0"
    using assms by (simp add: ageInDays_eq divide_right_mono)
  have e: "exp (- (min (ageInDays now t0) 90 / 10)) \<le> exp (- (min (ageInDays now t1) 90 / 10))"
    using age by (simp add: min_def)
  have w: "spec_timeWeight (ageInDays now t0) \<le> spec_timeWeight (ageInDays now t1)"
    using age by (rule spec_timeWeight_antimono)
  have "exp (- (min (ageInDays now t0) 90 / 10)) * spec_timeWeight (ageInDays now t0)
      \<le> exp (- (min (ageInDays now t1) 90 / 10)) * spec_timeWeight (ageInDays now t1)"
    using e w by (intro mult_mono) (simp_all add: less_imp_le [OF spec_timeWeight_pos])
  then show ?thesis
    unfolding calculateTemporalScore_product
    by (intro mult_right_mono) (simp_all add: less_imp_le [OF spec_boost_pos])
qed

text \<open>An eight days old listing against one added at the current instant.\<close>

theorem temporalScore_monotone_witness:
  "(0::int) < 691200000 \<and>
   calculateTemporalScore 691200000 0 noAttributes
     \<le> calculateTemporalScore 691200000 691200000 noAttributes"
  using temporalScore_monotone [of 0 691200000 691200000 noAttributes] by simp

text \<open>
  C2. The claim bounds the TTL of every written bucket by \<open>2 * base = 7200\<close>, the score
  being clamped to [0, 1]. \<^verbatim>\<open>calculateDynamicTTL\<close> does not clamp: a premium listing
  added at the current instant scores 1.2 and gets 8280 seconds, where the clamped
  formula gives 7200.
\<close>

theorem dynamicTTL_exceeds_maxTTL:
  "calculateDynamicTTL
     (calculateTemporalScore 0 0 \<lparr>isPremium = True, isFeatured = False, isVerified = False\<rparr>)
     defaultBaseTime = 8280
   \<and> spec_dynamicTTL
     (calculateTemporalScore 0 0 \<lparr>isPremium = True, isFeatured = False, isVerified = False\<rparr>)
     = 7200"
  by (simp add: calculateDynamicTTL_def spec_dynamicTTL_def calculateTemporalScore_product
      ageInDays_eq spec_timeWeight_def spec_boost_def defaultBaseTime_def clamp_def)


text \<open>The upper bound holds for a listing without badges whose date is not in the future.\<close>

lemma calculateDynamicTTL_upper_unboosted:
  assumes "d \<le> now"
  shows "calculateDynamicTTL (calculateTemporalScore now d noAttributes) defaultBaseTime \<le> 7200"
proof -
  have a: "0 \<le> ageInDays now d"
    using assms by (simp add: ageInDays_eq)
  then have "exp (- (min (ageInDays now d) 90 / 10)) \<le> 1"
    by simp
  moreover have "spec_timeWeight (ageInDays now d) \<le> 1"
    by (simp add: spec_timeWeight_def)
  ultimately have "exp (- (min (ageInDays now d) 90 / 10)) * spec_timeWeight (ageInDays now d) \<le> 1 * 1"
    by (intro mult_mono) (simp_all add: less_imp_le [OF spec_timeWeight_pos])
  then have "calculateTemporalScore now d noAttributes \<le> 1"
    by (simp add: calculateTemporalScore_product spec_boost_def noAttributes_def)
  then have "1800 + 5400 * calculateTemporalScore now d noAttributes \<le> 7200"
    by simp
  then have "\<lfloor>1800 + 5400 * calculateTemporalScore now d noAttributes\<rfloor> \<le> 7200"
    by (simp add: floor_le_iff)
  then show ?thesis
    by (simp add: calculateDynamicTTL_def defaultBaseTime_def)
qed

section \<open>Properties of cache reads and writes\<close>



lemma map_of_zset_add: "map_of (zset_add k sc l) k = Some sc"
  by (simp add: zset_add_def)


lemma expireTimeAccepted_in_range:
  "expireTimeAccepted now seconds \<Longrightarrow> \<not> LLONG_MAX < seconds"
  by (simp add: expireTimeAccepted_def LLONG_MAX_def)

lemma put_entry:
  assumes "expireTimeAccepted t0 (calculateDynamicTTL (calculateTemporalScore t0 d pa) defaultBaseTime)"
  shows "redis (snd (setCacheWithTemporalDecay t0 k v d pa s)) k = Some (writtenBucket t0 v d pa)"
  using assms expireTimeAccepted_in_range [OF assms]
  by (auto simp: setCacheWithTemporalDecay_def Let_def redis_setEx_def redis_zAdd_def
      liveEntry_def writtenBucket_def expireTimeAccepted_def
      split: option.splits redisValue.splits sum.splits if_splits)

text \<open>
  A bucket dated at the instant of its write and without badges, as the nearby query
  writes it, has score 1 and 7200 seconds to live, which the server accepts at every
  instant.
\<close>

lemma score_now: "calculateTemporalScore now now noAttributes = 1"
  by (simp add: calculateTemporalScore_product ageInDays_eq spec_timeWeight_def spec_boost_def
      noAttributes_def)

lemma ttl_now: "calculateDynamicTTL (calculateTemporalScore now now noAttributes) defaultBaseTime = 7200"
  by (simp add: score_now calculateDynamicTTL_def defaultBaseTime_def)

lemma expireTimeAccepted_now:
  "expireTimeAccepted now (calculateDynamicTTL (calculateTemporalScore now now noAttributes) defaultBaseTime)"
  by (simp add: ttl_now expireTimeAccepted_def LLONG_MAX_def maxTimeValue_def min_def)

lemma put_entry_now:
  "redis (snd (setCacheWithTemporalDecay now k v now noAttributes s)) k
     = Some (writtenBucket now v now noAttributes)"
  by (rule put_entry [OF expireTimeAccepted_now])


lemma calculateTemporalScore_metadata:
  "calculateTemporalScore now d' \<lparr>isPremium = isPremium pa, isFeatured = isFeatured pa,
            isVerified = isVerified pa, dateAdded = d\<rparr> = calculateTemporalScore now d' pa"
  by (simp add: calculateTemporalScore_def)

lemma get_fresh:
  assumes "r k = Some (writtenBucket t0 v d pa)" 
      and "t1 < t0 + calculateDynamicTTL (calculateTemporalScore t0 d pa) defaultBaseTime * 1000"
      and "\<not> calculateTemporalScore t1 d pa < 0.7 * calculateTemporalScore t0 d pa"
      and "redis s = r"
  shows "getCacheWithTemporalCheck t1 k s = (Some v, s\<lparr>cacheHits := cacheHits s + 1\<rparr>)"
  using assms
  by (simp add: getCacheWithTemporalCheck_def redis_get_def liveEntry_def writtenBucket_def Let_def
      calculateTemporalScore_metadata)









text \<open>
  The bounds hold for every \<^verbatim>\<open>dateAdded\<close> that is not after the write: the score is then
  at most 1.386 and the TTL at most 9284 seconds.
\<close>

lemma spec_boost_le: "spec_boost pa \<le> 1.386"
  by (simp add: spec_boost_def)

lemma calculateDynamicTTL_not_future:
  assumes "d \<le> t0"
  shows "calculateDynamicTTL (calculateTemporalScore t0 d pa) defaultBaseTime \<le> 9284"
proof -
  have a: "0 \<le> ageInDays t0 d"
    using assms by (simp add: ageInDays_eq)
  then have "exp (- (min (ageInDays t0 d) 90 / 10)) \<le> 1"
    by simp
  moreover have "spec_timeWeight (ageInDays t0 d) \<le> 1"
    by (simp add: spec_timeWeight_def)
  ultimately have
    "exp (- (min (ageInDays t0 d) 90 / 10)) * spec_timeWeight (ageInDays t0 d) \<le> 1 * 1"
    by (intro mult_mono) (simp_all add: less_imp_le [OF spec_timeWeight_pos])
  then have "exp (- (min (ageInDays t0 d) 90 / 10)) * spec_timeWeight (ageInDays t0 d)
               * spec_boost pa \<le> 1 * 1.386"
    using spec_boost_le [of pa]
    by (intro mult_mono) (simp_all add: less_imp_le [OF spec_boost_pos])
  then have "calculateTemporalScore t0 d pa \<le> 1.386"
    by (simp add: calculateTemporalScore_product)
  then have "1800 + 5400 * calculateTemporalScore t0 d pa < 9285"
    by simp
  then have "\<lfloor>1800 + 5400 * calculateTemporalScore t0 d pa\<rfloor> \<le> 9284"
    by (simp add: floor_le_iff)
  then show ?thesis
    by (simp add: calculateDynamicTTL_def defaultBaseTime_def)
qed

lemma expireTimeAccepted_not_future:
  assumes "d \<le> t0" and "t0 \<le> maxTimeValue"
  shows "calculateDynamicTTL (calculateTemporalScore t0 d pa) defaultBaseTime \<le> LLONG_MAX div 1000
         \<and> t0 + calculateDynamicTTL (calculateTemporalScore t0 d pa) defaultBaseTime * 1000
             \<le> LLONG_MAX"
  using calculateDynamicTTL_not_future [OF assms(1), of pa] assms(2)
  by (simp add: LLONG_MAX_def maxTimeValue_def)









section \<open>Properties of invalidation and of the optimizer\<close>

lemma redis_del_empty: "redis_del {} r = r"
  by (simp add: redis_del_def)

lemma invalidateCell_eq:
  "invalidateCell now cell r = redis_del (redis_keys now (''geo:'' @ cell @ '':*'') r) r"
  by (simp add: invalidateCell_def Let_def redis_del_empty)

lemma invalidateCell_apply:
  "invalidateCell now cell r k =
     (if liveEntry now r k \<noteq> None \<and> globMatch (''geo:'' @ cell @ '':*'') k then None else r k)"
  by (simp add: invalidateCell_eq redis_del_def redis_keys_def)

lemma liveEntry_invalidateCell:
  "liveEntry now (invalidateCell now cell r) k =
     (if globMatch (''geo:'' @ cell @ '':*'') k then None else liveEntry now r k)"
  by (auto simp: liveEntry_def invalidateCell_apply split: option.splits)

lemma fold_invalidateCell_apply:
  "fold (invalidateCell now) cells r k =
     (if liveEntry now r k \<noteq> None \<and> (\<exists>c \<in> set cells. globMatch (''geo:'' @ c @ '':*'') k)
      then None else r k)"
proof (induction cells arbitrary: r)
  case Nil
  then show ?case by simp
next
  case (Cons c cells)
  have "fold (invalidateCell now) (c # cells) r k
      = fold (invalidateCell now) cells (invalidateCell now c r) k"
    by simp
  also have "\<dots> =
     (if liveEntry now (invalidateCell now c r) k \<noteq> None
         \<and> (\<exists>c \<in> set cells. globMatch (''geo:'' @ c @ '':*'') k)
      then None else invalidateCell now c r k)"
    by (rule Cons.IH)
  also have "\<dots> =
     (if liveEntry now r k \<noteq> None
         \<and> (\<exists>c \<in> set (c # cells). globMatch (''geo:'' @ c @ '':*'') k)
      then None else r k)"
    by (auto simp: liveEntry_invalidateCell invalidateCell_apply)
  finally show ?case .
qed

lemma invalidateRadius_apply:
  "redis (invalidateRadius env now lat lng radius' s) k =
     (if liveEntry now (redis s) k \<noteq> None
         \<and> (\<exists>c \<in> set (geohashEncode env lat lng (getPrecision radius')
                         # geohashNeighbors env (geohashEncode env lat lng (getPrecision radius'))).
               globMatch (''geo:'' @ c @ '':*'') k)
      then None else redis s k)"
  unfolding invalidateRadius_def Let_def
  by (simp add: fold_invalidateCell_apply del: fold.simps)

lemma invalidateRadius_deletes:
  assumes "c = geohashEncode env lat lng (getPrecision radius')
             \<or> c \<in> set (geohashNeighbors env (geohashEncode env lat lng (getPrecision radius')))"
      and "globMatch (''geo:'' @ c @ '':*'') k"
  shows "liveEntry now (redis (invalidateRadius env now lat lng radius' s)) k = None"
  using assms
  by (auto simp: liveEntry_def invalidateRadius_apply split: option.splits)

lemma invalidateRadius_keeps_temporal_scores:
  "redis (invalidateRadius env now lat lng radius' s) ''temporal_scores'' = redis s ''temporal_scores''"
  by (simp add: invalidateRadius_apply)

lemma invalidateRadius_keeps_scoreIndex:
  "scoreIndex now (redis (invalidateRadius env now lat lng radius' s)) = scoreIndex now (redis s)"
  by (simp add: scoreIndex_def liveEntry_def invalidateRadius_keeps_temporal_scores)

lemma score_at_write: "calculateTemporalScore 0 0 noAttributes = 1"
  by (simp add: calculateTemporalScore_product ageInDays_eq spec_timeWeight_def spec_boost_def
      noAttributes_def)

lemma ttl_at_write: "calculateDynamicTTL 1 defaultBaseTime = 7200"
  by (simp add: calculateDynamicTTL_def defaultBaseTime_def)

text \<open>
  C3. The claim has \<^verbatim>\<open>invalidateRadius\<close> delete the matching keys and remove their entries
  of the sorted set \<^verbatim>\<open>temporal_scores\<close>. The keys are deleted
  (\<open>invalidateRadius_deletes\<close>), the sorted set is never touched
  (\<open>invalidateRadius_keeps_scoreIndex\<close>): after a write of \<open>geo:dr5re:10\<close> and an
  invalidation at the same point the key is gone and its score entry is still there.
\<close>

theorem invalidateRadius_orphans_scoreIndex:
  "redis_get 0 ''geo:dr5re:10''
     (redis (snd (setCacheWithTemporalDecay 0 ''geo:dr5re:10'' True 0 noAttributes initialState)))
     \<noteq> Inr None
   \<and> scoreIndex 0
     (redis (snd (setCacheWithTemporalDecay 0 ''geo:dr5re:10'' True 0 noAttributes initialState)))
     ''geo:dr5re:10'' = Some 1
   \<and> redis_get 0 ''geo:dr5re:10''
     (redis (invalidateRadius (exampleEnv []) 0 40.71 (-74.01) 10
        (snd (setCacheWithTemporalDecay 0 ''geo:dr5re:10'' True 0 noAttributes initialState))))
     = Inr None
   \<and> scoreIndex 0
     (redis (invalidateRadius (exampleEnv []) 0 40.71 (-74.01) 10
        (snd (setCacheWithTemporalDecay 0 ''geo:dr5re:10'' True 0 noAttributes initialState))))
     ''geo:dr5re:10'' = Some 1"
  by (simp add: setCacheWithTemporalDecay_def score_at_write ttl_at_write redis_setEx_def
      expireTimeAccepted_def LLONG_MAX_def maxTimeValue_def
      redis_zAdd_def liveEntry_def initialState_def zset_add_def scoreIndex_def redis_get_def
      invalidateRadius_apply Let_def exampleEnv_def getPrecision_def)

lemma redis_expire_other: "k \<noteq> k' \<Longrightarrow> redis_expire now k' secs r k = r k"
  by (simp add: redis_expire_def split: option.splits)

lemma optimizeIfNeeded_redis:
  "k \<noteq> ''geo:'' @ g @ '':*'' \<Longrightarrow> redis (optimizeIfNeeded now g s) k = redis s k"
  by (simp add: optimizeIfNeeded_def adjustCacheStrategy_def Let_def redis_expire_other)

lemma trackMiss_redis:
  "k \<noteq> ''geo:'' @ g @ '':*'' \<Longrightarrow> redis (trackMiss now g s) k = redis s k"
  by (simp add: trackMiss_def optimizeIfNeeded_redis)

lemma trackHit_redis:
  "k \<noteq> ''geo:'' @ g @ '':*'' \<Longrightarrow> redis (trackHit now g s) k = redis s k"
  by (simp add: trackHit_def optimizeIfNeeded_redis)

lemma optimizeIfNeeded_resets:
  "100 \<le> counterOf (hitCounter s) g + counterOf (missCounter s) g \<Longrightarrow>
   counterOf (hitCounter (optimizeIfNeeded now g s)) g = 0
   \<and> counterOf (missCounter (optimizeIfNeeded now g s)) g = 0"
  by (simp add: optimizeIfNeeded_def adjustCacheStrategy_def Let_def counterOf_def)

text \<open>
  C6. With 20 hits and 79 misses counted for the cell \<open>dr5re\<close>, one more miss brings the
  total to 100 at ratio 0.2: both counters are reset, as the claim says, but the key
  \<open>geo:dr5re:10\<close>, which matches \<open>geo:dr5re:*\<close>, keeps the expiry instant of its write
  (7200 s after instant 0) instead of 1800 s after the trigger, since EXPIRE is given
  the pattern as a key name.
\<close>

theorem optimizer_leaves_ttl:
  "let s0 = (snd (setCacheWithTemporalDecay 0 ''geo:dr5re:10'' True 0 noAttributes initialState))
              \<lparr>hitCounter := [''dr5re'' \<mapsto> 20], missCounter := [''dr5re'' \<mapsto> 79]\<rparr>;
       s1 = trackMiss 60000 ''dr5re'' s0
   in globMatch ''geo:dr5re:*'' ''geo:dr5re:10''
      \<and> map_option expiresAt (redis s0 ''geo:dr5re:10'') = Some (Some 7200000)
      \<and> counterOf (hitCounter s1) ''dr5re'' = 0
      \<and> counterOf (missCounter s1) ''dr5re'' = 0
      \<and> map_option expiresAt (redis s1 ''geo:dr5re:10'') = Some (Some 7200000)"
  by (simp add: Let_def trackMiss_def optimizeIfNeeded_def adjustCacheStrategy_def counterOf_def
      redis_expire_def liveEntry_def
      setCacheWithTemporalDecay_def score_at_write ttl_at_write redis_setEx_def
      expireTimeAccepted_def LLONG_MAX_def maxTimeValue_def
      redis_zAdd_def initialState_def zset_add_def)

section \<open>Properties of neighbour warming\<close>

lemma put_other:
  "k' \<noteq> key \<Longrightarrow> k' \<noteq> ''temporal_scores'' \<Longrightarrow>
   redis (snd (setCacheWithTemporalDecay now key v d pa s)) k' = redis s k'"
  by (auto simp: setCacheWithTemporalDecay_def Let_def redis_setEx_def redis_zAdd_def
      split: option.splits redisValue.splits sum.splits if_splits)

lemma put_frame:
  "cacheHits (snd (setCacheWithTemporalDecay now key v d pa s)) = cacheHits s"
  "redisServices_cacheHits (snd (setCacheWithTemporalDecay now key v d pa s)) = redisServices_cacheHits s"
  "hitCounter (snd (setCacheWithTemporalDecay now key v d pa s)) = hitCounter s"
  "missCounter (snd (setCacheWithTemporalDecay now key v d pa s)) = missCounter s"
  "docQueries (snd (setCacheWithTemporalDecay now key v d pa s)) = docQueries s"
  by (auto simp: setCacheWithTemporalDecay_def Let_def split: sum.splits)

lemma warmNeighbors_Cons:
  assumes "geoNear env (longitude, latitude) (radius' * 1000) = Some docs"
  shows "warmNeighbors env now latitude longitude radius' (n # ns) s =
         warmNeighbors env now latitude longitude radius' ns
           (warmStep env now latitude longitude radius' docs n s)"
  using assms by (simp add: aggregateDocs_def warmStep_def warmQuery_def Let_def)

lemma warmStep_frame:
  "cacheHits (warmStep env now latitude longitude radius' docs n s) = cacheHits s"
  "redisServices_cacheHits (warmStep env now latitude longitude radius' docs n s) = redisServices_cacheHits s"
  "hitCounter (warmStep env now latitude longitude radius' docs n s) = hitCounter s"
  "missCounter (warmStep env now latitude longitude radius' docs n s) = missCounter s"
  "docQueries (warmStep env now latitude longitude radius' docs n s)
     = docQueries s @ [warmQuery latitude longitude radius']"
  by (simp_all add: warmStep_def put_frame logQuery_def)



lemma warmStep_other:
  "k \<noteq> ''geo:'' @ n @ '':'' @ numberToString env radius' \<Longrightarrow> k \<noteq> ''temporal_scores'' \<Longrightarrow>
   redis (warmStep env now latitude longitude radius' docs n s) k = redis s k"
  by (simp add: warmStep_def put_other logQuery_def)

lemma warmNeighbors_ok:
  assumes "geoNear env (longitude, latitude) (radius' * 1000) = Some docs"
  shows "fst (warmNeighbors env now latitude longitude radius' ns s) = True"
proof (induction ns arbitrary: s)
  case Nil
  then show ?case by simp
next
  case (Cons n ns)
  then show ?case by (simp only: warmNeighbors_Cons [OF assms])
qed

lemma warmNeighbors_frame:
  assumes "geoNear env (longitude, latitude) (radius' * 1000) = Some docs"
  shows "cacheHits (snd (warmNeighbors env now latitude longitude radius' ns s)) = cacheHits s
    \<and> redisServices_cacheHits (snd (warmNeighbors env now latitude longitude radius' ns s)) = redisServices_cacheHits s
    \<and> hitCounter (snd (warmNeighbors env now latitude longitude radius' ns s)) = hitCounter s
    \<and> missCounter (snd (warmNeighbors env now latitude longitude radius' ns s)) = missCounter s
    \<and> docQueries (snd (warmNeighbors env now latitude longitude radius' ns s))
        = docQueries s @ replicate (length ns) (warmQuery latitude longitude radius')"
proof (induction ns arbitrary: s)
  case Nil
  then show ?case by simp
next
  case (Cons n ns)
  show ?case
    by (simp only: warmNeighbors_Cons [OF assms] Cons.IH warmStep_frame)
       (simp add: replicate_append_same)
qed


lemma warmNeighbors_other:
  assumes "geoNear env (longitude, latitude) (radius' * 1000) = Some docs"
      and "\<forall>n \<in> set ns. k \<noteq> ''geo:'' @ n @ '':'' @ numberToString env radius'"
      and "k \<noteq> ''temporal_scores''"
  shows "redis (snd (warmNeighbors env now latitude longitude radius' ns s)) k = redis s k"
  using assms(2)
proof (induction ns arbitrary: s)
  case Nil
  then show ?case by simp
next
  case (Cons n ns)
  then show ?case
    by (simp add: warmNeighbors_Cons [OF assms(1)] warmStep_other assms(3) del: warmNeighbors.simps)
qed


section \<open>Properties of the nearby query\<close>

text \<open>The returned page is a rearrangement of the scored page, in non-increasing order of the
  attached score.\<close>

lemma sortByScore_sorted: "sorted_wrt (\<lambda>a b. score b \<le> score a) (sortByScore ps)"
proof -
  have "sorted (map (\<lambda>p. - score p) (sort_key (\<lambda>p. - score p) ps))"
    by (rule sorted_sort_key)
  then show ?thesis
    by (simp add: sortByScore_def sorted_map)
qed

lemma sortByScore_same_items:
  "set (sortByScore ps) = set ps \<and> length (sortByScore ps) = length ps"
  by (simp add: sortByScore_def)

lemma get_frame:
  "redisServices_cacheHits (snd (getCacheWithTemporalCheck now key s)) = redisServices_cacheHits s"
  "hitCounter (snd (getCacheWithTemporalCheck now key s)) = hitCounter s"
  "missCounter (snd (getCacheWithTemporalCheck now key s)) = missCounter s"
  "docQueries (snd (getCacheWithTemporalCheck now key s)) = docQueries s"
  by (auto simp: getCacheWithTemporalCheck_def Let_def split: sum.splits option.splits)

lemma optimizeIfNeeded_frame:
  "redisServices_cacheHits (optimizeIfNeeded now g s) = redisServices_cacheHits s"
  "cacheHits (optimizeIfNeeded now g s) = cacheHits s"
  "docQueries (optimizeIfNeeded now g s) = docQueries s"
  by (simp_all add: optimizeIfNeeded_def adjustCacheStrategy_def Let_def)

lemma track_frame:
  "redisServices_cacheHits (trackHit now g s) = redisServices_cacheHits s"
  "cacheHits (trackHit now g s) = cacheHits s"
  "docQueries (trackHit now g s) = docQueries s"
  "redisServices_cacheHits (trackMiss now g s) = redisServices_cacheHits s"
  "cacheHits (trackMiss now g s) = cacheHits s"
  "docQueries (trackMiss now g s) = docQueries s"
  by (simp_all add: trackHit_def trackMiss_def optimizeIfNeeded_frame)

lemma trackMiss_counts:
  "counterOf (missCounter s) g + counterOf (hitCounter s) g < 99 \<Longrightarrow>
   counterOf (missCounter (trackMiss now g s)) g = counterOf (missCounter s) g + 1"
  by (simp add: trackMiss_def optimizeIfNeeded_def Let_def counterOf_def)

lemma findNearbyProperties_hit:
  assumes "getCacheWithTemporalCheck now (generateKey env latitude longitude radius') s = (Some c, s1)"
  shows "findNearbyProperties env now latitude longitude radius' page limit s
         = (Inr c, trackHit now (generateKey env latitude longitude radius') s1)"
  using assms by (simp add: findNearbyProperties_def Let_def)

lemma totalCount_of_counted:
  "(case (if docs = [] then [] else [length docs]) of [] \<Rightarrow> 0 | n # ns \<Rightarrow> n) = length docs"
  by simp

lemma findNearbyProperties_miss:
  assumes miss: "getCacheWithTemporalCheck now (generateKey env latitude longitude radius') s = (None, s1)"
      and docs: "geoNear env (longitude, latitude) (radius' * 1000) = Some docs"
      and page: "1 \<le> page" and limit: "1 \<le> limit"
  shows "findNearbyProperties env now latitude longitude radius' page limit s
         = (Inr (missResult now latitude longitude radius' page limit docs),
            snd (warmNeighbors env now latitude longitude radius'
                   (getNeighbors env latitude longitude radius')
                   (snd (setCacheWithTemporalDecay now (generateKey env latitude longitude radius')
                           (missResult now latitude longitude radius' page limit docs) now noAttributes
                           (logQuery (pageQuery latitude longitude radius' page limit)
                              (logQuery (countQuery latitude longitude radius')
                                 (trackMiss now (generateKey env latitude longitude radius') s1)))))))"
proof -
  have skip: "\<not> (page - 1) * limit < 0"
    using page limit by (simp add: mult_nonneg_nonneg not_less)
  have lim: "\<not> limit \<le> 0" using limit by simp
  have w: "\<And>ns s. fst (warmNeighbors env now latitude longitude radius' ns s) = True"
    by (rule warmNeighbors_ok [OF docs])
  have w': "\<And>ns s. warmNeighbors env now latitude longitude radius' ns s
              = (True, snd (warmNeighbors env now latitude longitude radius' ns s))"
    using w by (metis prod.collapse)
  show ?thesis
    unfolding findNearbyProperties_def Let_def miss
    apply (simp only: prod.case option.case aggregateCount_def aggregateDocs_def docs
        applyStages.simps skip lim if_False totalCount_of_counted split_conv fst_conv snd_conv)
    apply (subst w')
    apply (simp add: missResult_def countQuery_def pageQuery_def)
    done
qed

lemma warmNeighbors_frame_any:
  "cacheHits (snd (warmNeighbors env now latitude longitude radius' ns s)) = cacheHits s
    \<and> redisServices_cacheHits (snd (warmNeighbors env now latitude longitude radius' ns s)) = redisServices_cacheHits s
    \<and> hitCounter (snd (warmNeighbors env now latitude longitude radius' ns s)) = hitCounter s
    \<and> missCounter (snd (warmNeighbors env now latitude longitude radius' ns s)) = missCounter s"
proof (cases "geoNear env (longitude, latitude) (radius' * 1000)")
  case None
  then show ?thesis
    by (cases ns) (simp_all add: aggregateDocs_def logQuery_def)
next
  case (Some docs)
  then show ?thesis using warmNeighbors_frame [OF Some] by simp
qed

lemma warmNeighbors_keeps:
  assumes "warmNeighbors env now latitude longitude radius' ns s = (b, s')"
  shows "redisServices_cacheHits s' = redisServices_cacheHits s"
    and "missCounter s' = missCounter s"
  using warmNeighbors_frame_any [of env now latitude longitude radius' ns s] assms by simp_all

lemma findNearbyProperties_keeps_redisServices_cacheHits:
  "redisServices_cacheHits (snd (findNearbyProperties env now latitude longitude radius' page limit s))
     = redisServices_cacheHits s"
proof (cases "getCacheWithTemporalCheck now (generateKey env latitude longitude radius') s")
  case (Pair c s1)
  have s1: "redisServices_cacheHits s1 = redisServices_cacheHits s"
    using get_frame(1) [of now "generateKey env latitude longitude radius'" s] Pair by simp
  show ?thesis
  proof (cases c)
    case (Some v)
    then show ?thesis
      using Pair s1 by (simp add: findNearbyProperties_hit track_frame)
  next
    case None
    show ?thesis
      unfolding findNearbyProperties_def Let_def Pair None
      by (auto simp: aggregateCount_def aggregateDocs_def logQuery_def track_frame s1 put_frame
          dest!: warmNeighbors_keeps(1) split: option.splits prod.splits)
  qed
qed

lemma get_initial: "getCacheWithTemporalCheck now k initialState = (None, initialState)"
  by (simp add: getCacheWithTemporalCheck_def redis_get_def liveEntry_def initialState_def)

lemma exampleEnv_simps:
  "geoNear (exampleEnv docs) nr md = Some docs"
  "generateKey (exampleEnv docs) lat lng 10 = ''geo:dr5re:10''"
  "numberToString (exampleEnv docs) 10 = ''10''"
  "getNeighbors (exampleEnv docs) lat lng 10
     = [''dr5rg'', ''dr5ru'', ''dr5rs'', ''dr5rk'', ''dr5r7'', ''dr5r6'', ''dr5rd'', ''dr5rf'']"
  by (simp_all add: exampleEnv_def generateKey_def getNeighbors_def getPrecision_def)

lemma ceiling_1_25: "\<lceil>1 / 25 :: real\<rceil> = 1"
  by (simp add: ceiling_eq_iff)

text \<open>
  C4. The claim computes the relevance of an item from the item's own badges. The query
  attaches \<open>calculateTemporalScore(property.date_added)\<close> without them: the premium listing
  100 m away gets 10/11 where the claim's formula gives 12/11, and it is returned
  after the plain listing of relevance 1.
\<close>

theorem relevance_ignores_badges:
  "fst (findNearbyProperties (exampleEnv [listingA, listingB]) 0 40.71 (-74.01) 10 1 50 initialState)
     = Inr (NearbyResult
         \<lparr>properties =
            [\<lparr>isPremium = False, isFeatured = False, isVerified = False,
              property_id = 1, date_added = 0, distance = 0, score = 1\<rparr>,
             \<lparr>isPremium = True, isFeatured = False, isVerified = False,
              property_id = 2, date_added = 0, distance = 100, score = 10 / 11\<rparr>],
          totalCount = 2, totalPages = 1, currentPage = 1,
          metadata = \<lparr>queryTimestamp = 0, coordinates = (40.71, -74.01), radius = 10\<rparr>\<rparr>)
   \<and> spec_relevance 0 listingA = 1
   \<and> spec_relevance 0 listingB = 12 / 11"
proof -
  have m: "getCacheWithTemporalCheck 0
             (generateKey (exampleEnv [listingA, listingB]) 40.71 (-74.01) 10) initialState
           = (None, initialState)"
    by (rule get_initial)
  have "fst (findNearbyProperties (exampleEnv [listingA, listingB]) 0 40.71 (-74.01) 10 1 50 initialState)
     = Inr (missResult 0 40.71 (-74.01) 10 1 50 [listingA, listingB])"
    by (subst findNearbyProperties_miss [OF m]) (simp_all add: exampleEnv_simps)
  moreover have "missResult 0 40.71 (-74.01) 10 1 50 [listingA, listingB] = NearbyResult
         \<lparr>properties =
            [\<lparr>isPremium = False, isFeatured = False, isVerified = False,
              property_id = 1, date_added = 0, distance = 0, score = 1\<rparr>,
             \<lparr>isPremium = True, isFeatured = False, isVerified = False,
              property_id = 2, date_added = 0, distance = 100, score = 10 / 11\<rparr>],
          totalCount = 2, totalPages = 1, currentPage = 1,
          metadata = \<lparr>queryTimestamp = 0, coordinates = (40.71, -74.01), radius = 10\<rparr>\<rparr>"
    by (simp add: missResult_def sortByScore_def applyScoring_def listingA_def listingB_def
        score_at_write ceiling_1_25)
  moreover have "spec_relevance 0 listingA = 1" "spec_relevance 0 listingB = 12 / 11"
    by (simp_all add: spec_relevance_def listingA_def listingB_def calculateTemporalScore_product
        ageInDays_eq spec_timeWeight_def spec_boost_def)
  ultimately show ?thesis by simp
qed



section \<open>Properties of the route handlers\<close>

lemma warmNeighbors_docQueries_nonempty:
  assumes "docQueries s \<noteq> []"
  shows "docQueries (snd (warmNeighbors env now latitude longitude radius' ns s)) \<noteq> []"
proof (cases "geoNear env (longitude, latitude) (radius' * 1000)")
  case None
  then show ?thesis
    using assms by (cases ns) (simp_all add: aggregateDocs_def logQuery_def)
next
  case (Some docs)
  then show ?thesis
    using warmNeighbors_frame [OF Some, of now ns s] assms by simp
qed

lemma warmNeighbors_result:
  assumes "warmNeighbors env now latitude longitude radius' ns s = (b, s')"
  shows "missCounter s' = missCounter s \<and> (docQueries s \<noteq> [] \<longrightarrow> docQueries s' \<noteq> [])"
  using warmNeighbors_keeps(2) [OF assms]
    warmNeighbors_docQueries_nonempty [of s env now latitude longitude radius' ns] assms
  by simp

lemma trackMiss_initial:
  "missCounter (trackMiss now key initialState) key = Some 1"
  "docQueries (trackMiss now key initialState) = []"
  by (simp_all add: trackMiss_def optimizeIfNeeded_def Let_def counterOf_def initialState_def)

lemma findNearbyProperties_initial:
  "missCounter (snd (findNearbyProperties env now latitude longitude radius' page limit initialState))
     (generateKey env latitude longitude radius') = Some 1
   \<and> docQueries (snd (findNearbyProperties env now latitude longitude radius' page limit initialState))
       \<noteq> []"
  unfolding findNearbyProperties_def Let_def get_initial
  by (auto simp: aggregateCount_def aggregateDocs_def logQuery_def trackMiss_initial put_frame
      dest!: warmNeighbors_result split: option.splits prod.splits)

text \<open>
  C5. The claim has a nearby query with a latitude outside [-90, 90] or a longitude
  outside [-180, 180] fail with InvalidCoordinate before any cache work.
  \<^verbatim>\<open>validateCoordinates\<close> accepts latitude 100 and longitude 200 (its bounds are 5000 and
  100000, its messages name 90 and 180), and the handler of \<^verbatim>\<open>GET /nearby\<close> calls no
  validation: for latitude 100, whatever the geohash package and the document store
  answer, the response is not a 400, the miss counter of the cache key has been
  incremented and the document store has been queried.
\<close>

theorem nearby_accepts_out_of_range_coordinates:
  "validateCoordinates 100 0 = Inr (100, 0)
   \<and> validateCoordinates 0 200 = Inr (0, 200)
   \<and> fst (nearbyRoute env now (Some 100) (Some 0) radius' page limit initialState) \<noteq> Json400 msg
   \<and> counterOf (missCounter
          (snd (nearbyRoute env now (Some 100) (Some 0) radius' page limit initialState)))
        (generateKey env 100 0 radius') = 1
   \<and> docQueries (snd (nearbyRoute env now (Some 100) (Some 0) radius' page limit initialState))
       \<noteq> []"
proof -
  obtain res s' where f: "findNearbyProperties env now 100 0 radius' page limit initialState = (res, s')"
    by (cases "findNearbyProperties env now 100 0 radius' page limit initialState")
  have s': "missCounter s' (generateKey env 100 0 radius') = Some 1" "docQueries s' \<noteq> []"
    using findNearbyProperties_initial [of env now 100 0 radius' page limit] f by simp_all
  have r: "snd (nearbyRoute env now (Some 100) (Some 0) radius' page limit initialState) = s'"
    by (simp add: nearbyRoute_def f split: sum.splits)
  have "fst (nearbyRoute env now (Some 100) (Some 0) radius' page limit initialState) \<noteq> Json400 msg"
    by (simp add: nearbyRoute_def f split: sum.splits)
  then show ?thesis
    using s' by (simp add: r validateCoordinates_def counterOf_def)
qed

lemma score_one_second_later:
  "\<not> calculateTemporalScore 1000 0 noAttributes < 0.7 * calculateTemporalScore 0 0 noAttributes"
proof -
  have "1 + - (1 / 864000 :: real) \<le> exp (- (1 / 864000))"
    by (rule exp_ge_add_one_self)
  then have "(0.7 :: real) \<le> exp (- (1 / 864000))"
    by simp
  moreover have "calculateTemporalScore 1000 0 noAttributes = exp (- (1 / 864000))"
    by (simp add: calculateTemporalScore_product ageInDays_eq spec_timeWeight_def spec_boost_def
        noAttributes_def)
  ultimately show ?thesis
    by (simp add: score_at_write)
qed

text \<open>
  C8. A nearby query on the empty cache and the same query one second later: the second
  is answered from the cache with the payload of the first, and the counter of
  decay.service.js goes from 0 to 1. The handler of \<^verbatim>\<open>GET /cacheStats\<close> reports the counter
  of redis.services.js instead, which stays 0 (for every input:
  \<open>findNearbyProperties_keeps_redisServices_cacheHits\<close>).
\<close>

theorem repeated_query_not_counted_by_cacheStats:
  "fst (findNearbyProperties (exampleEnv [listingA, listingB]) 0 40.71 (-74.01) 10 1 50 initialState)
     = Inr (missResult 0 40.71 (-74.01) 10 1 50 [listingA, listingB])
   \<and> fst (findNearbyProperties (exampleEnv [listingA, listingB]) 1000 40.71 (-74.01) 10 1 50
        (snd (findNearbyProperties (exampleEnv [listingA, listingB]) 0 40.71 (-74.01) 10 1 50
                initialState)))
     = Inr (missResult 0 40.71 (-74.01) 10 1 50 [listingA, listingB])
   \<and> getCacheHits
        (snd (findNearbyProperties (exampleEnv [listingA, listingB]) 0 40.71 (-74.01) 10 1 50
                initialState)) = 0
   \<and> getCacheHits
        (snd (findNearbyProperties (exampleEnv [listingA, listingB]) 1000 40.71 (-74.01) 10 1 50
          (snd (findNearbyProperties (exampleEnv [listingA, listingB]) 0 40.71 (-74.01) 10 1 50
                  initialState)))) = 1
   \<and> cacheStats_cacheHits
        (snd (findNearbyProperties (exampleEnv [listingA, listingB]) 0 40.71 (-74.01) 10 1 50
                initialState)) = 0
   \<and> cacheStats_cacheHits
        (snd (findNearbyProperties (exampleEnv [listingA, listingB]) 1000 40.71 (-74.01) 10 1 50
          (snd (findNearbyProperties (exampleEnv [listingA, listingB]) 0 40.71 (-74.01) 10 1 50
                  initialState)))) = 0"
proof -
  let ?env = "exampleEnv [listingA, listingB]"
  let ?R = "missResult 0 40.71 (-74.01) 10 1 50 [listingA, listingB]"
  let ?ns = "[''dr5rg'', ''dr5ru'', ''dr5rs'', ''dr5rk'', ''dr5r7'', ''dr5r6'', ''dr5rd'', ''dr5rf'']"
  let ?S0 = "snd (setCacheWithTemporalDecay 0 ''geo:dr5re:10'' ?R 0 noAttributes
               (logQuery (pageQuery 40.71 (-74.01) 10 1 50)
                  (logQuery (countQuery 40.71 (-74.01) 10)
                     (trackMiss 0 ''geo:dr5re:10'' initialState))))"
  let ?S1 = "snd (warmNeighbors ?env 0 40.71 (-74.01) 10 ?ns ?S0)"
  have g: "geoNear ?env (-74.01, 40.71) (10 * 1000) = Some [listingA, listingB]"
    by (simp add: exampleEnv_simps)
  have m: "getCacheWithTemporalCheck 0 (generateKey ?env 40.71 (-74.01) 10) initialState
             = (None, initialState)"
    by (rule get_initial)
  have first: "findNearbyProperties ?env 0 40.71 (-74.01) 10 1 50 initialState = (Inr ?R, ?S1)"
    using findNearbyProperties_miss [OF m g, of 1 50] by (simp add: exampleEnv_simps)
  have "redis ?S1 ''geo:dr5re:10'' = redis ?S0 ''geo:dr5re:10''"
    by (rule warmNeighbors_other [OF g]) (simp_all add: exampleEnv_simps)
  then have e: "redis ?S1 ''geo:dr5re:10'' = Some (writtenBucket 0 ?R 0 noAttributes)"
    by (simp add: put_entry_now)
  have w: "1000 < 0 + calculateDynamicTTL (calculateTemporalScore 0 0 noAttributes) defaultBaseTime * 1000"
    by (simp add: score_at_write ttl_at_write)
  have hit: "getCacheWithTemporalCheck 1000 ''geo:dr5re:10'' ?S1
               = (Some ?R, ?S1\<lparr>cacheHits := cacheHits ?S1 + 1\<rparr>)"
    by (rule get_fresh [OF e w score_one_second_later refl])
  have hit': "getCacheWithTemporalCheck 1000 (generateKey ?env 40.71 (-74.01) 10) ?S1
               = (Some ?R, ?S1\<lparr>cacheHits := cacheHits ?S1 + 1\<rparr>)"
    using hit by (simp add: exampleEnv_simps)
  have second: "findNearbyProperties ?env 1000 40.71 (-74.01) 10 1 50 ?S1
                  = (Inr ?R, trackHit 1000 ''geo:dr5re:10'' (?S1\<lparr>cacheHits := cacheHits ?S1 + 1\<rparr>))"
    using findNearbyProperties_hit [OF hit', of 1 50] by (simp add: exampleEnv_simps)
  have c1: "cacheHits ?S1 = 0"
    using warmNeighbors_frame [OF g, of 0 ?ns ?S0]
    by (simp add: put_frame logQuery_def track_frame initialState_def del: warmNeighbors.simps)
  have r1: "redisServices_cacheHits ?S1 = 0"
    using warmNeighbors_frame [OF g, of 0 ?ns ?S0]
    by (simp add: put_frame logQuery_def track_frame initialState_def del: warmNeighbors.simps)
  show ?thesis
    unfolding first second fst_conv snd_conv
    using c1 r1
    by (simp add: getCacheHits_def cacheStats_cacheHits_def getCacheHitCount_def track_frame
        del: warmNeighbors.simps)
qed

end
